theory Spec2Isabelle
  imports Complex_Main
begin

section \<open>JavaScript string primitives used by the service\<close>

text \<open>
  \<^verbatim>\<open>s.startsWith(p)\<close>, \<^verbatim>\<open>s.includes(sub)\<close>, \<^verbatim>\<open>s.split(sep)\<close> and array
  indexing \<^verbatim>\<open>xs[i]\<close> (which yields \<^verbatim>\<open>undefined\<close>, here \<open>None\<close>, out of range).
\<close>

fun js_startsWith :: "string \<Rightarrow> string \<Rightarrow> bool" where
  "js_startsWith s [] = True"
| "js_startsWith [] (p # ps) = False"
| "js_startsWith (c # cs) (p # ps) = (c = p \<and> js_startsWith cs ps)"

fun js_includes :: "string \<Rightarrow> string \<Rightarrow> bool" where
  "js_includes [] sub = (sub = [])"
| "js_includes (c # cs) sub = (js_startsWith (c # cs) sub \<or> js_includes cs sub)"

function js_split :: "string \<Rightarrow> string \<Rightarrow> string list" where
  "js_split [] sep = (if sep = [] then [] else [[]])"
| "js_split (c # cs) sep =
     (if sep = [] then [c] # js_split cs sep
      else if js_startsWith (c # cs) sep
        then [] # js_split (drop (length sep) (c # cs)) sep
      else (case js_split cs sep of
              [] \<Rightarrow> [[c]]
            | h # t \<Rightarrow> (c # h) # t))"
  by pat_completeness auto
termination
  by (relation "measure (\<lambda>(s, sep). length s)") auto

definition js_index :: "'a list \<Rightarrow> nat \<Rightarrow> 'a option" where
  "js_index xs i = (if i < length xs then Some (xs ! i) else None)"

section \<open>Errors and the outside world\<close>

text \<open>
  A thrown object, as far as the service inspects it: its \<^verbatim>\<open>status\<close> (when it is a
  number) and its \<^verbatim>\<open>message\<close> (when it is a string). \<open>Error msg\<close> is
  \<^verbatim>\<open>new Error(msg)\<close>, which carries no status.
\<close>

record js_error =
  status :: "int option"
  message :: "string option"

definition Error :: "string \<Rightarrow> js_error" where
  "Error msg = \<lparr>status = None, message = Some msg\<rparr>"

text \<open>
  What \<^verbatim>\<open>fetch(input, {mode: 'cors'})\<close> followed by \<^verbatim>\<open>response.blob()\<close> and
  \<^verbatim>\<open>FileReader.readAsDataURL\<close> can do: the fetch rejects (network failure or
  cross-origin denial), the response is not ok, reading the body rejects, the reader
  reports an error event, or the reader delivers a data URL.
\<close>

datatype fetch_outcome =
    FetchRejected js_error
  | ResponseNotOk string
  | BlobRejected js_error
  | ReaderFailed js_error
  | ReaderResult string

text \<open>The parts of a generation response that the service reads.\<close>

datatype inline_data = InlineData (data: "string option")

record part =
  text_of :: "string option"
  inlineData :: "inline_data option"

datatype content = Content (parts: "part list option")

datatype candidate = Candidate (content: "content option")

datatype response = Response (candidates: "candidate list option")

record image_config =
  aspectRatio :: string
  imageSize :: string

record request =
  model :: string
  prompt_text :: string
  mimeType :: string
  image_data :: "string option"
  imageConfig :: "image_config option"

text \<open>
  The environment of a call, threading a world \<open>'w\<close> through every external effect:
  the network fetch, the construction of the SDK client, and the remote generation call.
\<close>

record 'w env =
  fetch :: "string \<Rightarrow> 'w \<Rightarrow> fetch_outcome \<times> 'w"
  newClient :: "'w \<Rightarrow> (js_error + unit) \<times> 'w"
  generateContent :: "request \<Rightarrow> 'w \<Rightarrow> (js_error + response) \<times> 'w"

section \<open>Input normalisation: \<^verbatim>\<open>prepareImageForAPI\<close>\<close>

definition sourceFetchError :: js_error where
  "sourceFetchError =
     Error ''Could not process source image. If using a demo image, ensure CORS is allowed.''"

text \<open>
  The promise around the \<^verbatim>\<open>FileReader\<close> is returned without \<^verbatim>\<open>await\<close>, so a reader
  error escapes the \<^verbatim>\<open>catch\<close> and is thrown as it is; every earlier failure is caught
  and replaced by the fixed error. The result is \<open>None\<close> where the source resolves
  with \<^verbatim>\<open>undefined\<close>.
\<close>

definition prepareImageForAPI ::
  "'w env \<Rightarrow> string \<Rightarrow> 'w \<Rightarrow> (js_error + string option) \<times> 'w" where
  "prepareImageForAPI e input w =
     (if js_startsWith input ''http'' then
        (case fetch e input w of
           (FetchRejected err, w') \<Rightarrow> (Inl sourceFetchError, w')
         | (ResponseNotOk statusText, w') \<Rightarrow> (Inl sourceFetchError, w')
         | (BlobRejected err, w') \<Rightarrow> (Inl sourceFetchError, w')
         | (ReaderFailed ev, w') \<Rightarrow> (Inl ev, w')
         | (ReaderResult res, w') \<Rightarrow> (Inr (js_index (js_split res '','') 1), w'))
      else if js_includes input ''base64,'' then
        (Inr (js_index (js_split input ''base64,'') 1), w)
      else (Inr (Some input), w))"

section \<open>The retry wrapper: \<^verbatim>\<open>withRetry\<close>\<close>

text \<open>
  What \<^verbatim>\<open>withRetry\<close> can throw: a caught error object, or \<^verbatim>\<open>undefined\<close>, the initial
  value of \<^verbatim>\<open>lastError\<close>, when the loop body never runs.
\<close>

datatype thrown = ThrownUndefined | Thrown js_error

definition isRetryable :: "js_error \<Rightarrow> bool" where
  "isRetryable error =
     (status error = Some 503 \<or> status error = Some 500 \<or>
      (case message error of None \<Rightarrow> False | Some m \<Rightarrow> js_includes m ''Internal error'') \<or>
      (case message error of None \<Rightarrow> False | Some m \<Rightarrow> js_includes m ''Overloaded''))"

text \<open>
  The \<^verbatim>\<open>for\<close> loop of \<^verbatim>\<open>withRetry\<close>, from index \<open>i\<close>. The operation is a state
  transformer of the world. Besides the outcome and the final world the model returns a
  log with one entry per invocation of the operation: the attempt index and the number
  of milliseconds handed to \<^verbatim>\<open>setTimeout\<close> after it (\<open>None\<close> when the loop is left
  without waiting).
\<close>

function withRetry_loop ::
  "('w \<Rightarrow> (js_error + 'a) \<times> 'w) \<Rightarrow> int \<Rightarrow> int \<Rightarrow> nat \<Rightarrow> thrown \<Rightarrow> 'w
     \<Rightarrow> (thrown + 'a) \<times> (nat \<times> int option) list \<times> 'w" where
  "withRetry_loop operation retries delay i lastError w =
     (if int i < retries then
        (case operation w of
           (Inr v, w') \<Rightarrow> (Inr v, [(i, None)], w')
         | (Inl error, w') \<Rightarrow>
             (if isRetryable error then
                (case withRetry_loop operation retries delay (Suc i) (Thrown error) w' of
                   (r, entries, w'') \<Rightarrow> (r, (i, Some (delay * (int i + 1))) # entries, w''))
              else (Inl (Thrown error), [(i, None)], w')))
      else (Inl lastError, [], w))"
  by pat_completeness auto
termination
  by (relation "measure (\<lambda>(operation, retries, delay, i, lastError, w). nat (retries - int i))")
    auto

declare withRetry_loop.simps [simp del]

definition withRetry ::
  "('w \<Rightarrow> (js_error + 'a) \<times> 'w) \<Rightarrow> int \<Rightarrow> int \<Rightarrow> 'w
     \<Rightarrow> (thrown + 'a) \<times> (nat \<times> int option) list \<times> 'w" where
  "withRetry operation retries delay w =
     withRetry_loop operation retries delay 0 ThrownUndefined w"

section \<open>The prompt composer\<close>

record GenerationConfig =
  blackAndWhite :: bool
  strictPose :: bool
  keepFace :: bool
  lockLocation :: bool
  lockProduct :: bool

definition stylePrompt :: "GenerationConfig \<Rightarrow> string" where
  "stylePrompt config =
     (if blackAndWhite config
      then ''Black and White Photography, High Contrast, Noir Style, Ansel Adams aesthetic.''
      else ''Commercial, High Key, 8k Resolution, Sharp Focus.'')"

definition posePrompt :: "GenerationConfig \<Rightarrow> string" where
  "posePrompt config =
     ''The object being held (the product) MUST remain exactly as it appears. Ensure the hand grip is natural.'' @
     (if strictPose config
      then '' STRICTLY mimic the exact arm angle, hand grip, and body posture of the reference image. Do not move the arm.''
      else '' You have creative freedom with the pose. Analyze the product type and use your best judgement to select the most flattering angle, grip, and body posture to showcase it. Change the arm position to what sells this specific product best. Do not feel bound by the original posture.'')"

definition facePrompt :: "GenerationConfig \<Rightarrow> string" where
  "facePrompt config =
     (if keepFace config
      then ''Keep the user's face and identity recognizable, but enhance lighting and skin texture for a professional look.''
      else ''Generative swap: Replace the person in the image with a generated model. Use your best judgement to select a model (age, gender, style) that creates the strongest appeal for this specific product demographic. Do NOT preserve the original identity.'')"

definition locationPrompt :: "GenerationConfig \<Rightarrow> string" where
  "locationPrompt config =
     (if lockLocation config
      then ''Maintain the original background environment and geometry. Do not generate a new background, only enhance the existing one.''
      else [])"

definition productPreservationPrompt :: "GenerationConfig \<Rightarrow> string" where
  "productPreservationPrompt config =
     (if lockProduct config
      then ''\<newline>        CRITICAL - PRODUCT PRESERVATION:\<newline>        The object held in the hand is a real commercial product. \<newline>        You MUST preserve the PRODUCT TEXT, LOGOS, and LABEL DETAILS exactly as they appear in the reference image.\<newline>        Do not hallucinate new text on the label. Do not blur or distort the brand name.\<newline>        Treat the product pixels as ground truth.\<newline>        ''
      else ''The object held in the hand is the focus.'')"

definition marketing_prompt :: "string \<Rightarrow> GenerationConfig \<Rightarrow> string" where
  "marketing_prompt userPrompt config =
     ''\<newline>        Professional Product Photography. \<newline>        Task: Transform this reference image into a high-end commercial advertisement.\<newline>        \<newline>        '' @
     productPreservationPrompt config @
     ''\<newline>  \<newline>        Product Integrity: '' @ posePrompt config @
     ''\<newline>        Subject: '' @ facePrompt config @
     ''\<newline>        Context/Background: '' @ userPrompt @ ''. '' @ locationPrompt config @
     ''\<newline>        Style: '' @ stylePrompt config @
     ''\<newline>      ''"

definition variant_prompt :: "string \<Rightarrow> string \<Rightarrow> string" where
  "variant_prompt setting angle =
     ''\<newline>        Product Photography Remix.\<newline>        Object: Keep the main object/product from the input image exactly as is.\<newline>        Setting: '' @
     setting @
     ''.\<newline>        Camera Angle/Composition: '' @ angle @
     ''.\<newline>        Lighting: Professional studio lighting matching the setting.\<newline>        Style: High resolution, photorealistic, advertising standard.\<newline>      ''"

text \<open>
  The composer of \<^verbatim>\<open>src/services/geminiService.ts\<close>: the pose clause has no
  branch for the loose mode, the face clause keeps its initial value when
  \<^verbatim>\<open>keepFace\<close> is off, and the templates are indented by two characters less.
\<close>

definition posePrompt_svc :: "GenerationConfig \<Rightarrow> string" where
  "posePrompt_svc config =
     ''The object being held (the product) MUST remain exactly as it appears. Ensure the hand grip is natural.'' @
     (if strictPose config
      then '' STRICTLY mimic the exact arm angle, hand grip, and body posture of the reference image.''
      else [])"

definition facePrompt_svc :: "GenerationConfig \<Rightarrow> string" where
  "facePrompt_svc config =
     (if keepFace config
      then ''Keep the user's face and identity recognizable, but enhance lighting and skin texture for a professional look.''
      else ''Replace the person with a professional model or character that fits the context.'')"

definition productPreservationPrompt_svc :: "GenerationConfig \<Rightarrow> string" where
  "productPreservationPrompt_svc config =
     (if lockProduct config
      then ''\<newline>      CRITICAL - PRODUCT PRESERVATION:\<newline>      The object held in the hand is a real commercial product. \<newline>      You MUST preserve the PRODUCT TEXT, LOGOS, and LABEL DETAILS exactly as they appear in the reference image.\<newline>      Do not hallucinate new text on the label. Do not blur or distort the brand name.\<newline>      Treat the product pixels as ground truth.\<newline>      ''
      else ''The object held in the hand is the focus.'')"

definition marketing_prompt_svc :: "string \<Rightarrow> GenerationConfig \<Rightarrow> string" where
  "marketing_prompt_svc userPrompt config =
     ''\<newline>      Professional Product Photography. \<newline>      Task: Transform this reference image into a high-end commercial advertisement.\<newline>      \<newline>      '' @
     productPreservationPrompt_svc config @
     ''\<newline>\<newline>      Product Integrity: '' @ posePrompt_svc config @
     ''\<newline>      Subject: '' @ facePrompt_svc config @
     ''\<newline>      Context/Background: '' @ userPrompt @ ''. '' @ locationPrompt config @
     ''\<newline>      Style: '' @ stylePrompt config @
     ''\<newline>    ''"

section \<open>The generation calls\<close>

record gen_result =
  imageUrl :: string

text \<open>\<^verbatim>\<open>imageResponse.candidates?.[0]?.content?.parts || []\<close>\<close>

definition response_parts :: "response \<Rightarrow> part list" where
  "response_parts imageResponse =
     (case candidates imageResponse of
        None \<Rightarrow> []
      | Some [] \<Rightarrow> []
      | Some (c # _) \<Rightarrow>
          (case content c of
             None \<Rightarrow> []
           | Some ct \<Rightarrow> (case parts ct of None \<Rightarrow> [] | Some ps \<Rightarrow> ps)))"

text \<open>A template literal prints \<^verbatim>\<open>undefined\<close> for a missing value.\<close>

definition template_value :: "string option \<Rightarrow> string" where
  "template_value v = (case v of None \<Rightarrow> ''undefined'' | Some s \<Rightarrow> s)"

text \<open>
  The scan for the first part with inline data, started from \<open>generatedImageUrl\<close>
  (the value the variable holds when no part has any).
\<close>

fun extract_image :: "string \<Rightarrow> part list \<Rightarrow> string" where
  "extract_image generatedImageUrl [] = generatedImageUrl"
| "extract_image generatedImageUrl (p # ps) =
     (case inlineData p of
        Some d \<Rightarrow> ''data:image/png;base64,'' @ template_value (data d)
      | None \<Rightarrow> extract_image generatedImageUrl ps)"

definition marketing_request :: "string option \<Rightarrow> string \<Rightarrow> GenerationConfig \<Rightarrow> request" where
  "marketing_request cleanBase64 userPrompt config =
     \<lparr>model = ''gemini-3-pro-image-preview'',
      prompt_text = marketing_prompt userPrompt config,
      mimeType = ''image/jpeg'',
      image_data = cleanBase64,
      imageConfig = Some \<lparr>aspectRatio = ''3:4'', imageSize = ''2K''\<rparr>\<rparr>"

definition marketing_operation ::
  "'w env \<Rightarrow> string \<Rightarrow> string \<Rightarrow> GenerationConfig \<Rightarrow> 'w \<Rightarrow> (js_error + gen_result) \<times> 'w" where
  "marketing_operation e base64Image userPrompt config w =
     (case newClient e w of
        (Inl error, w0) \<Rightarrow> (Inl error, w0)
      | (Inr ai, w0) \<Rightarrow>
          (case prepareImageForAPI e base64Image w0 of
             (Inl error, w1) \<Rightarrow> (Inl error, w1)
           | (Inr cleanBase64, w1) \<Rightarrow>
               (case generateContent e (marketing_request cleanBase64 userPrompt config) w1 of
                  (Inl error, w2) \<Rightarrow> (Inl error, w2)
                | (Inr imageResponse, w2) \<Rightarrow>
                    (let generatedImageUrl = extract_image [] (response_parts imageResponse)
                     in (Inr \<lparr>imageUrl = (if generatedImageUrl = [] then base64Image
                                            else generatedImageUrl)\<rparr>, w2)))))"

definition generateMarketingImage ::
  "'w env \<Rightarrow> string \<Rightarrow> string \<Rightarrow> GenerationConfig \<Rightarrow> 'w
     \<Rightarrow> (thrown + gen_result) \<times> (nat \<times> int option) list \<times> 'w" where
  "generateMarketingImage e base64Image userPrompt config w =
     withRetry (marketing_operation e base64Image userPrompt config) 3 1000 w"

definition variant_request :: "string option \<Rightarrow> string \<Rightarrow> string \<Rightarrow> request" where
  "variant_request cleanBase64 setting angle =
     \<lparr>model = ''gemini-2.5-flash-image'',
      prompt_text = variant_prompt setting angle,
      mimeType = ''image/jpeg'',
      image_data = cleanBase64,
      imageConfig = None\<rparr>"

definition variant_operation ::
  "'w env \<Rightarrow> string \<Rightarrow> string \<Rightarrow> string \<Rightarrow> 'w \<Rightarrow> (js_error + gen_result) \<times> 'w" where
  "variant_operation e base64Image setting angle w =
     (case newClient e w of
        (Inl error, w0) \<Rightarrow> (Inl error, w0)
      | (Inr ai, w0) \<Rightarrow>
          (case prepareImageForAPI e base64Image w0 of
             (Inl error, w1) \<Rightarrow> (Inl error, w1)
           | (Inr cleanBase64, w1) \<Rightarrow>
               (case generateContent e (variant_request cleanBase64 setting angle) w1 of
                  (Inl error, w2) \<Rightarrow> (Inl error, w2)
                | (Inr imageResponse, w2) \<Rightarrow>
                    (let generatedImageUrl = extract_image [] (response_parts imageResponse)
                     in if generatedImageUrl = []
                        then (Inl (Error ''No image generated from Flash model''), w2)
                        else (Inr \<lparr>imageUrl = generatedImageUrl\<rparr>, w2)))))"

definition generateVariantImage ::
  "'w env \<Rightarrow> string \<Rightarrow> string \<Rightarrow> string \<Rightarrow> 'w
     \<Rightarrow> (thrown + gen_result) \<times> (nat \<times> int option) list \<times> 'w" where
  "generateVariantImage e base64Image setting angle w =
     withRetry (variant_operation e base64Image setting angle) 3 1000 w"



section \<open>The A/B fan-out of the design studio: \<^verbatim>\<open>handleRunABTest\<close>\<close>

record choice =
  choice_id :: string
  label :: string
  prompt :: string

text \<open>The label of the last setting ends with an emoji, written here as its UTF-8 bytes.\<close>

definition SETTINGS :: "choice list" where
  "SETTINGS =
     [\<lparr>choice_id = ''marble'', label = ''Marble Studio'',
         prompt = ''on a luxury white marble podium, soft lighting''\<rparr>,
      \<lparr>choice_id = ''neon'', label = ''Cyber Street'',
         prompt = ''in a neon-lit cyberpunk street at night, wet pavement reflection''\<rparr>,
      \<lparr>choice_id = ''nature'', label = ''Deep Nature'',
         prompt = ''surrounded by lush green tropical leaves and moss, sunlight filtering through''\<rparr>,
      \<lparr>choice_id = ''minimal'', label = ''Ultra Minimal'',
         prompt = ''in a pure white void, floating, soft diffuse shadow''\<rparr>,
      \<lparr>choice_id = ''kitchen'', label = ''Cozy Kitchen'',
         prompt = ''on a rustic wooden kitchen table, morning sunlight, lifestyle photography''\<rparr>,
      \<lparr>choice_id = ''bananas'',
         label = ''Go Bananas '' @ [CHR 0xF0, CHR 0x9F, CHR 0x8D, CHR 0x8C],
         prompt = ''Creative wild card! The AI will analyze the product and generate a totally unique, surprise setting that maximizes visual impact.''\<rparr>]"

record stats =
  ctr :: real
  score :: int
  impressions :: int

record ABTestResult =
  result_id :: string
  result_image :: string
  settingName :: string
  result_stats :: stats

text \<open>
  A settled promise, as \<^verbatim>\<open>Promise.allSettled\<close> reports it. \<open>allSettled n completed\<close>
  takes the settlements in the order in which they happen, each with the array position
  of its promise, and answers with the outcomes in array order; it never resolves
  (\<open>None\<close>) while a position is missing.
\<close>

datatype 'a settled = Fulfilled 'a | Rejected thrown

definition allSettled :: "nat \<Rightarrow> (nat \<times> 'a settled) list \<Rightarrow> 'a settled list option" where
  "allSettled n completed = those (map (map_of completed) [0..<n])"

text \<open>
  \<^verbatim>\<open>Math.floor(Math.random() * 25) + 70\<close> and \<^verbatim>\<open>+(Math.random() * 3 + 1.5).toFixed(1)\<close>,
  over a draw \<open>r\<close> of \<^verbatim>\<open>Math.random()\<close>; the numbers are real numbers here, not doubles.
\<close>

definition random_score :: "real \<Rightarrow> int" where
  "random_score r = \<lfloor>r * 25\<rfloor> + 70"

definition random_ctr :: "real \<Rightarrow> real" where
  "random_ctr r = real_of_int \<lfloor>(r * 3 + 3 / 2) * 10 + 1 / 2\<rfloor> / 10"

datatype ab_error = TypeError | BothVariantsFailed

text \<open>
  The body of the \<^verbatim>\<open>try\<close> block. \<open>settle k image setting angle\<close> is how the call
  \<^verbatim>\<open>generateVariantImage(image, setting, angle)\<close> launched at array position \<open>k\<close>
  settles, \<open>completionOrder\<close> lists the positions in the order in which the calls
  settle, and \<open>rnd\<close> is the sequence of draws of \<^verbatim>\<open>Math.random()\<close>. The result is
  \<open>None\<close> when the \<^verbatim>\<open>await\<close> never returns.
\<close>

definition abTest_try ::
  "(nat \<Rightarrow> string \<Rightarrow> string \<Rightarrow> string \<Rightarrow> gen_result settled) \<Rightarrow> (nat \<Rightarrow> real) \<Rightarrow> nat list
     \<Rightarrow> string \<Rightarrow> choice \<Rightarrow> choice \<Rightarrow> (ab_error + ABTestResult list) option" where
  "abTest_try settle rnd completionOrder originalImage selectedSetting selectedAngle =
     (let variantA_Setting = selectedSetting;
          otherSettings = filter (\<lambda>s. choice_id s \<noteq> choice_id selectedSetting) SETTINGS;
          k = \<lfloor>rnd 0 * real (length otherSettings)\<rfloor>
      in if k < 0 \<or> int (length otherSettings) \<le> k then Some (Inl TypeError)
         else
           (let variantB_Setting = otherSettings ! nat k;
                launched =
                  [settle 0 originalImage (prompt variantA_Setting) (prompt selectedAngle),
                   settle 1 originalImage (prompt variantB_Setting) (prompt selectedAngle)]
            in case allSettled 2
                      (map (\<lambda>p. (p, launched ! p)) (filter (\<lambda>p. p < 2) completionOrder)) of
                 None \<Rightarrow> None
               | Some results \<Rightarrow>
                   (let resultA =
                          (case results ! 0 of
                             Fulfilled v \<Rightarrow>
                               [\<lparr>result_id = ''A'', result_image = imageUrl v,
                                  settingName = label variantA_Setting,
                                  result_stats = \<lparr>ctr = random_ctr (rnd 2),
                                    score = random_score (rnd 1), impressions = 1240\<rparr>\<rparr>]
                           | Rejected reason \<Rightarrow> []);
                        n = 1 + 2 * length resultA;
                        resultB =
                          (case results ! 1 of
                             Fulfilled v \<Rightarrow>
                               [\<lparr>result_id = ''B'', result_image = imageUrl v,
                                  settingName = label variantB_Setting,
                                  result_stats = \<lparr>ctr = random_ctr (rnd (Suc n)),
                                    score = random_score (rnd n), impressions = 1180\<rparr>\<rparr>]
                           | Rejected reason \<Rightarrow> []);
                        validResults = resultA @ resultB
                    in if length validResults = 0 then Some (Inl BothVariantsFailed)
                       else Some (Inr validResults))))"

record studio =
  originalImage :: "string option"
  isRunningAB :: bool
  abResults :: "ABTestResult list"
  selectedSetting :: choice
  selectedAngle :: choice
  alerts :: "string list"

definition handleRunABTest ::
  "(nat \<Rightarrow> string \<Rightarrow> string \<Rightarrow> string \<Rightarrow> gen_result settled) \<Rightarrow> (nat \<Rightarrow> real) \<Rightarrow> nat list
     \<Rightarrow> studio \<Rightarrow> studio" where
  "handleRunABTest settle rnd completionOrder s =
     (case originalImage s of
        None \<Rightarrow> s
      | Some img \<Rightarrow>
          if img = [] \<or> isRunningAB s then s
          else
            (let s1 = s\<lparr>isRunningAB := True, abResults := []\<rparr>
             in case abTest_try settle rnd completionOrder img (selectedSetting s)
                       (selectedAngle s) of
                  None \<Rightarrow> s1
                | Some (Inr validResults) \<Rightarrow>
                    s1\<lparr>abResults := validResults, isRunningAB := False\<rparr>
                | Some (Inl error) \<Rightarrow>
                    s1\<lparr>alerts := alerts s1 @
                          [''Could not run A/B test. Please check your connection and try again.''],
                        isRunningAB := False\<rparr>))"

section \<open>Concrete environments\<close>

text \<open>
  An environment whose fetch and whose generation call always answer the same, on a
  world that counts the external calls made; and one whose generation call is
  overloaded (status 503) until the world has counted two calls.
\<close>

definition stub_env :: "fetch_outcome \<Rightarrow> (js_error + response) \<Rightarrow> nat env" where
  "stub_env fo go =
     \<lparr>fetch = (\<lambda>url n. (fo, Suc n)),
      newClient = (\<lambda>n. (Inr (), n)),
      generateContent = (\<lambda>req n. (go, Suc n))\<rparr>"

definition flaky_env :: "response \<Rightarrow> nat env" where
  "flaky_env resp =
     \<lparr>fetch = (\<lambda>url n. (FetchRejected (Error ''Failed to fetch''), n)),
      newClient = (\<lambda>n. (Inr (), n)),
      generateContent = (\<lambda>req n.
        (if n < 2 then Inl \<lparr>status = Some 503, message = None\<rparr> else Inr resp, Suc n))\<rparr>"

definition image_response :: "string \<Rightarrow> response" where
  "image_response payload =
     Response (Some [Candidate (Some (Content (Some
       [\<lparr>text_of = Some ''Here is your image'', inlineData = None\<rparr>,
        \<lparr>text_of = None, inlineData = Some (InlineData (Some payload))\<rparr>])))])"

definition text_response :: response where
  "text_response =
     Response (Some [Candidate (Some (Content (Some
       [\<lparr>text_of = Some ''Sorry, no image'', inlineData = None\<rparr>])))])"

text \<open>
  Operations for the retry wrapper, on a world that counts the attempts: one is always
  overloaded (status 503, and 500 at the third attempt), one is a bad request.
\<close>

definition failing_op :: "nat \<Rightarrow> (js_error + string) \<times> nat" where
  "failing_op n =
     (Inl \<lparr>status = Some (if n = 2 then 500 else 503), message = Some ''attempt''\<rparr>, Suc n)"

definition bad_request_op :: "nat \<Rightarrow> (js_error + string) \<times> nat" where
  "bad_request_op n = (Inl \<lparr>status = Some 400, message = Some ''Bad Request''\<rparr>, Suc n)"

text \<open>The configuration of the scenario: product, pose and face locked, colour, free location.\<close>

definition scenario_config :: GenerationConfig where
  "scenario_config =
     \<lparr>blackAndWhite = False, strictPose = True, keepFace = True, lockLocation = False,
      lockProduct = True\<rparr>"


text \<open>
  A studio with the first setting selected, and a pair of calls of which the one at
  position 0 is rejected and the one at position 1 is fulfilled.
\<close>

definition settle_A_fails :: "nat \<Rightarrow> string \<Rightarrow> string \<Rightarrow> string \<Rightarrow> gen_result settled" where
  "settle_A_fails k img setting angle =
     (if k = 0 then Rejected (Thrown (Error ''No image generated from Flash model''))
      else Fulfilled \<lparr>imageUrl = ''data:image/png;base64,QUJD''\<rparr>)"

definition studio0 :: studio where
  "studio0 =
     \<lparr>originalImage = Some ''data:image/jpeg;base64,ABC123'', isRunningAB = False,
      abResults = [], selectedSetting = \<lparr>choice_id = ''marble'', label = ''Marble Studio'',
         prompt = ''on a luxury white marble podium, soft lighting''\<rparr>,
      selectedAngle = \<lparr>choice_id = ''eye'', label = ''Eye Level'',
         prompt = ''straight on eye-level view, symmetrical composition''\<rparr>,
      alerts = []\<rparr>"

section \<open>Facts about the string primitives\<close>

lemma js_startsWith_append_notin:
  "js_startsWith (m @ c # r) p \<Longrightarrow> c \<notin> set p \<Longrightarrow> js_startsWith m p"
proof (induction m arbitrary: p)
  case Nil
  then show ?case by (cases p) auto
next
  case (Cons x xs)
  then show ?case by (cases p) auto
qed

lemma js_startsWith_self: "js_startsWith (p @ r) p"
  by (induction p) auto

lemma js_startsWith_imp_includes: "js_startsWith s sub \<Longrightarrow> js_includes s sub"
  by (cases s; cases sub) auto

lemma js_includes_append: "js_includes s sub \<Longrightarrow> js_includes (pre @ s) sub"
  by (induction pre) auto

lemma js_includes_mid: "js_includes (pre @ sub @ post) sub"
  by (rule js_includes_append) (rule js_startsWith_imp_includes, rule js_startsWith_self)

lemma js_split_no_sep:
  "sep \<noteq> [] \<Longrightarrow> \<not> js_includes s sep \<Longrightarrow> js_split s sep = [s]"
  by (induction s) auto

lemma js_split_first_sep:
  assumes "sep \<noteq> []" and "c \<notin> set sep"
    and "\<not> js_includes m sep"
  shows "js_split (m @ c # sep @ p) sep = (m @ [c]) # js_split p sep"
  using assms(3)
proof (induction m)
  case Nil
  have "\<not> js_startsWith (c # sep @ p) sep"
    using assms(1,2) by (cases sep) auto
  moreover have "js_split (sep @ p) sep = [] # js_split p sep"
    using assms(1) js_startsWith_self [of sep p] by (cases sep) auto
  ultimately show ?case using assms(1) by simp
next
  case (Cons x xs)
  have "\<not> js_startsWith (x # xs) sep"
    using Cons.prems by auto
  then have "\<not> js_startsWith ((x # xs) @ c # sep @ p) sep"
    using js_startsWith_append_notin [of "x # xs" c "sep @ p" sep] assms(2) by blast
  moreover have "js_split (xs @ c # sep @ p) sep = (xs @ [c]) # js_split p sep"
    using Cons by auto
  ultimately show ?case using assms(1) by simp
qed




section \<open>Input normalisation\<close>

text \<open>
  C4. A data URI \<^verbatim>\<open>data:<mime>;base64,<p>\<close> normalises to its payload \<open>p\<close>,
  whenever the payload does not contain the marker \<^verbatim>\<open>base64,\<close>. The media type is
  one of a data URI, so it holds no comma; all the proof needs of it is that the marker
  does not occur inside it. No network access takes place: the world is unchanged.
\<close>

theorem prepareImageForAPI_roundtrip:
  assumes "\<not> js_includes p ''base64,''"
    and "\<not> js_includes mime ''base64,''"
  shows "prepareImageForAPI e (''data:'' @ mime @ '';base64,'' @ p) w = (Inr (Some p), w)"
proof -
  let ?input = "''data:'' @ mime @ '';base64,'' @ p"
  have sp: "js_split (mime @ CHR '';'' # ''base64,'' @ p) ''base64,'' = [mime @ '';'', p]"
    using js_split_first_sep [of "''base64,''" "CHR '';''" mime p]
      js_split_no_sep [of "''base64,''" p] assms by simp
  have "js_split ?input ''base64,'' = [''data:'' @ mime @ '';'', p]"
    using sp by simp
  moreover have "js_includes ?input ''base64,''"
    using js_includes_mid [of "''data:'' @ mime @ '';''" "''base64,''" p] by simp
  moreover have "\<not> js_startsWith ?input ''http''"
    by simp
  ultimately show ?thesis
    by (simp add: prepareImageForAPI_def js_index_def)
qed

theorem prepareImageForAPI_roundtrip_witness:
  "prepareImageForAPI (stub_env (FetchRejected (Error ''offline'')) (Inr text_response))
     ''data:image/jpeg;base64,ABC123'' 0 = (Inr (Some ''ABC123''), 0)"
  using prepareImageForAPI_roundtrip [of "''ABC123''" "''image/jpeg''"
      "stub_env (FetchRejected (Error ''offline'')) (Inr text_response)" 0]
  by simp

lemma stub_fields:
  "fetch (stub_env fo go) = (\<lambda>url n. (fo, Suc n))"
  "newClient (stub_env fo go) = (\<lambda>n. (Inr (), n))"
  "generateContent (stub_env fo go) = (\<lambda>req n. (go, Suc n))"
  by (simp_all add: stub_env_def)




section \<open>The retry wrapper\<close>

lemma withRetry_loop_single:
  "operation w = (res, w') \<Longrightarrow> (case res of Inl err \<Rightarrow> \<not> isRetryable err | Inr v \<Rightarrow> True) \<Longrightarrow>
   withRetry operation 3 delay w =
     ((case res of Inl err \<Rightarrow> Inl (Thrown err) | Inr v \<Rightarrow> Inr v), [(0, None)], w')"
  by (cases res) (simp_all add: withRetry_def withRetry_loop.simps [of operation 3 delay 0])



lemma withRetry_loop_delays:
  "withRetry_loop operation retries delay i lastError w = (r, entries, w') \<Longrightarrow>
   (k, Some d) \<in> set entries \<Longrightarrow> d = delay * (int k + 1)"
proof (induction operation retries delay i lastError w arbitrary: r entries w'
    rule: withRetry_loop.induct)
  case (1 operation retries delay i lastError w)
  show ?case
  proof (cases "int i < retries")
    case False
    with "1.prems" show ?thesis
      by (auto simp add: withRetry_loop.simps [of operation retries delay i])
  next
    case True
    obtain res w1 where op: "operation w = (res, w1)" by (cases "operation w")
    show ?thesis
    proof (cases res)
      case (Inr v)
      with True op "1.prems" show ?thesis
        by (auto simp add: withRetry_loop.simps [of operation retries delay i])
    next
      case (Inl err)
      show ?thesis
      proof (cases "isRetryable err")
        case False
        with True op Inl "1.prems" show ?thesis
          by (auto simp add: withRetry_loop.simps [of operation retries delay i])
      next
        case retry: True
        obtain r2 entries2 w2 where rec:
          "withRetry_loop operation retries delay (Suc i) (Thrown err) w1 = (r2, entries2, w2)"
          by (cases "withRetry_loop operation retries delay (Suc i) (Thrown err) w1") auto
        have ent: "entries = (i, Some (delay * (int i + 1))) # entries2"
          using True op Inl retry rec "1.prems"(1)
          by (simp add: withRetry_loop.simps [of operation retries delay i])
        show ?thesis
        proof (cases "(k, Some d) \<in> set entries2")
          case True
          then show ?thesis
            using "1.IH" [OF \<open>int i < retries\<close> op [symmetric] Inl retry rec] by simp
        next
          case False
          with ent "1.prems"(2) show ?thesis by auto
        qed
      qed
    qed
  qed
qed

lemma failing_op_run:
  "withRetry failing_op 3 1000 0 =
     (Inl (Thrown \<lparr>status = Some 500, message = Some ''attempt''\<rparr>),
      [(0, Some 1000), (1, Some 2000), (2, Some 3000)], 3)"
  by (simp add: withRetry_def withRetry_loop.simps [of failing_op 3 1000] failing_op_def
      isRetryable_def)

text \<open>
  C1. With the bound 3: when the first three attempts raise retryable errors, the
  operation is invoked exactly three times (the log has the entries 0, 1 and 2) and the
  error of the third attempt is thrown; when the first attempt raises an error that is
  not retryable, the operation is invoked once and that error is thrown at once.
\<close>

theorem withRetry_bound:
  "(operation w = (Inl e1, w1) \<and> isRetryable e1 \<and>
    operation w1 = (Inl e2, w2) \<and> isRetryable e2 \<and>
    operation w2 = (Inl e3, w3) \<and> isRetryable e3 \<longrightarrow>
      withRetry operation 3 delay w =
        (Inl (Thrown e3), [(0, Some delay), (1, Some (delay * 2)), (2, Some (delay * 3))], w3)) \<and>
   (operation w = (Inl e, w') \<and> \<not> isRetryable e \<longrightarrow>
      withRetry operation 3 delay w = (Inl (Thrown e), [(0, None)], w'))"
  by (simp add: withRetry_def withRetry_loop.simps [of operation 3 delay])

theorem withRetry_bound_witness:
  "withRetry failing_op 3 1000 0 =
     (Inl (Thrown \<lparr>status = Some 500, message = Some ''attempt''\<rparr>),
      [(0, Some 1000), (1, Some 2000), (2, Some 3000)], 3) \<and>
   withRetry bad_request_op 3 1000 0 =
     (Inl (Thrown \<lparr>status = Some 400, message = Some ''Bad Request''\<rparr>), [(0, None)], 1)"
proof -
  have r: "isRetryable \<lparr>status = Some 503, message = Some ''attempt''\<rparr>"
     "isRetryable \<lparr>status = Some 500, message = Some ''attempt''\<rparr>"
    "\<not> isRetryable \<lparr>status = Some 400, message = Some ''Bad Request''\<rparr>"
    by (simp_all add: isRetryable_def)
  show ?thesis
    using withRetry_bound [of failing_op 0 _ 1 _ 2 _ 3 1000]
      withRetry_bound [of bad_request_op 0 _ _ _ _ _ _ _ _ 1] r
    by (simp add: failing_op_def bad_request_op_def)
qed

lemma withRetry_loop_shape:
  "withRetry_loop operation retries delay i lastError w = (r, entries, w') \<Longrightarrow>
   (\<forall>k. Suc k < length entries \<longrightarrow>
      entries ! k = (i + k, Some (delay * (int (i + k) + 1)))) \<and>
   (\<forall>k < length entries. fst (entries ! k) = i + k)"
proof (induction operation retries delay i lastError w arbitrary: r entries w'
    rule: withRetry_loop.induct)
  case (1 operation retries delay i lastError w)
  show ?case
  proof (cases "int i < retries")
    case False
    with "1.prems" show ?thesis
      by (auto simp add: withRetry_loop.simps [of operation retries delay i])
  next
    case True
    obtain res w1 where op: "operation w = (res, w1)" by (cases "operation w")
    show ?thesis
    proof (cases res)
      case (Inr v)
      with True op "1.prems" show ?thesis
        by (auto simp add: withRetry_loop.simps [of operation retries delay i])
    next
      case (Inl err)
      show ?thesis
      proof (cases "isRetryable err")
        case False
        with True op Inl "1.prems" show ?thesis
          by (auto simp add: withRetry_loop.simps [of operation retries delay i])
      next
        case retry: True
        obtain r2 entries2 w2 where rec:
          "withRetry_loop operation retries delay (Suc i) (Thrown err) w1 = (r2, entries2, w2)"
          by (cases "withRetry_loop operation retries delay (Suc i) (Thrown err) w1") auto
        have ent: "entries = (i, Some (delay * (int i + 1))) # entries2"
          using True op Inl retry rec "1.prems"
          by (simp add: withRetry_loop.simps [of operation retries delay i])
        have ih: "(\<forall>k. Suc k < length entries2 \<longrightarrow>
            entries2 ! k = (Suc i + k, Some (delay * (int (Suc i + k) + 1)))) \<and>
          (\<forall>k < length entries2. fst (entries2 ! k) = Suc i + k)"
          using "1.IH" [OF True op [symmetric] Inl retry rec] .
        show ?thesis
        proof (intro conjI allI impI)
          fix k assume "Suc k < length entries"
          then show "entries ! k = (i + k, Some (delay * (int (i + k) + 1)))"
            using ih ent by (cases k) auto
        next
          fix k assume "k < length entries"
          then show "fst (entries ! k) = i + k"
            using ih ent by (cases k) auto
        qed
      qed
    qed
  qed
qed

lemma withRetry_retry_once:
  "1 < retries \<Longrightarrow> operation w = (Inl e1, w1) \<Longrightarrow> isRetryable e1 \<Longrightarrow>
   operation w1 = (Inr v, w2) \<Longrightarrow>
   withRetry operation retries delay w = (Inr v, [(0, Some delay), (1, None)], w2)"
  by (simp add: withRetry_def withRetry_loop.simps [of operation retries delay])

lemma withRetry_retry_twice:
  "2 < retries \<Longrightarrow> operation w = (Inl e1, w1) \<Longrightarrow> isRetryable e1 \<Longrightarrow>
   operation w1 = (Inl e2, w2) \<Longrightarrow> isRetryable e2 \<Longrightarrow> operation w2 = (Inr v, w3) \<Longrightarrow>
   withRetry operation retries delay w =
     (Inr v, [(0, Some delay), (1, Some (delay * 2)), (2, None)], w3)"
  by (simp add: withRetry_def withRetry_loop.simps [of operation retries delay])

text \<open>
  C7. The log has one entry per attempt, numbered from 0. Every attempt that is followed
  by another one is followed first by a wait of \<open>delay * (i + 1)\<close> milliseconds, \<open>i\<close>
  being its index, and every wait the log records has that length: the delay is linear
  in the attempt index. Two overloaded attempts and a success wait \<open>delay\<close> and then
  \<open>delay * 2\<close>. Both generation calls do so with the base delay 1000.
\<close>

theorem withRetry_linear_delay:
  "(withRetry operation retries delay w = (r, entries, w') \<longrightarrow>
      (\<forall>k. Suc k < length entries \<longrightarrow> entries ! k = (k, Some (delay * (int k + 1)))) \<and>
      (\<forall>k < length entries. fst (entries ! k) = k) \<and>
      (\<forall>i d. (i, Some d) \<in> set entries \<longrightarrow> d = delay * (int i + 1))) \<and>
   (2 < retries \<and> operation w = (Inl e1, w1) \<and> isRetryable e1 \<and>
    operation w1 = (Inl e2, w2) \<and> isRetryable e2 \<and> operation w2 = (Inr v, w3) \<longrightarrow>
      withRetry operation retries delay w =
        (Inr v, [(0, Some delay), (1, Some (delay * 2)), (2, None)], w3)) \<and>
   (generateMarketingImage e base64Image userPrompt config wm = (rm, entriesm, wm') \<longrightarrow>
      (\<forall>k. Suc k < length entriesm \<longrightarrow> entriesm ! k = (k, Some (1000 * (int k + 1))))) \<and>
   (marketing_operation e base64Image userPrompt config wm = (Inl em, wm1) \<and> isRetryable em \<and>
    marketing_operation e base64Image userPrompt config wm1 = (Inr vm, wm2) \<longrightarrow>
      generateMarketingImage e base64Image userPrompt config wm =
        (Inr vm, [(0, Some 1000), (1, None)], wm2)) \<and>
   (generateVariantImage e base64Image setting angle wv = (rv, entriesv, wv') \<longrightarrow>
      (\<forall>k. Suc k < length entriesv \<longrightarrow> entriesv ! k = (k, Some (1000 * (int k + 1))))) \<and>
   (variant_operation e base64Image setting angle wv = (Inl ev, wv1) \<and> isRetryable ev \<and>
    variant_operation e base64Image setting angle wv1 = (Inr vv, wv2) \<longrightarrow>
      generateVariantImage e base64Image setting angle wv =
        (Inr vv, [(0, Some 1000), (1, None)], wv2))"
proof (intro conjI impI)
  assume a: "withRetry operation retries delay w = (r, entries, w')"
  then have s: "(\<forall>k. Suc k < length entries \<longrightarrow>
      entries ! k = (0 + k, Some (delay * (int (0 + k) + 1)))) \<and>
    (\<forall>k < length entries. fst (entries ! k) = 0 + k)"
    unfolding withRetry_def by (rule withRetry_loop_shape)
  show "\<forall>k. Suc k < length entries \<longrightarrow> entries ! k = (k, Some (delay * (int k + 1)))"
    using s by simp
  show "\<forall>k < length entries. fst (entries ! k) = k"
    using s by simp
  show "\<forall>i d. (i, Some d) \<in> set entries \<longrightarrow> d = delay * (int i + 1)"
  proof (intro allI impI)
    fix i d assume "(i, Some d) \<in> set entries"
    with a [unfolded withRetry_def] show "d = delay * (int i + 1)"
      by (rule withRetry_loop_delays)
  qed
next
  assume "2 < retries \<and> operation w = (Inl e1, w1) \<and> isRetryable e1 \<and>
    operation w1 = (Inl e2, w2) \<and> isRetryable e2 \<and> operation w2 = (Inr v, w3)"
  then show "withRetry operation retries delay w =
        (Inr v, [(0, Some delay), (1, Some (delay * 2)), (2, None)], w3)"
    by (simp add: withRetry_retry_twice)
next
  assume "generateMarketingImage e base64Image userPrompt config wm = (rm, entriesm, wm')"
  then have "(\<forall>k. Suc k < length entriesm \<longrightarrow>
      entriesm ! k = (0 + k, Some (1000 * (int (0 + k) + 1)))) \<and>
    (\<forall>k < length entriesm. fst (entriesm ! k) = 0 + k)"
    unfolding generateMarketingImage_def withRetry_def by (rule withRetry_loop_shape)
  then show "\<forall>k. Suc k < length entriesm \<longrightarrow> entriesm ! k = (k, Some (1000 * (int k + 1)))"
    by simp
next
  assume "marketing_operation e base64Image userPrompt config wm = (Inl em, wm1) \<and>
    isRetryable em \<and> marketing_operation e base64Image userPrompt config wm1 = (Inr vm, wm2)"
  then show "generateMarketingImage e base64Image userPrompt config wm =
        (Inr vm, [(0, Some 1000), (1, None)], wm2)"
    unfolding generateMarketingImage_def by (simp add: withRetry_retry_once)
next
  assume "generateVariantImage e base64Image setting angle wv = (rv, entriesv, wv')"
  then have "(\<forall>k. Suc k < length entriesv \<longrightarrow>
      entriesv ! k = (0 + k, Some (1000 * (int (0 + k) + 1)))) \<and>
    (\<forall>k < length entriesv. fst (entriesv ! k) = 0 + k)"
    unfolding generateVariantImage_def withRetry_def by (rule withRetry_loop_shape)
  then show "\<forall>k. Suc k < length entriesv \<longrightarrow> entriesv ! k = (k, Some (1000 * (int k + 1)))"
    by simp
next
  assume "variant_operation e base64Image setting angle wv = (Inl ev, wv1) \<and>
    isRetryable ev \<and> variant_operation e base64Image setting angle wv1 = (Inr vv, wv2)"
  then show "generateVariantImage e base64Image setting angle wv =
        (Inr vv, [(0, Some 1000), (1, None)], wv2)"
    unfolding generateVariantImage_def by (simp add: withRetry_retry_once)
qed

section \<open>The generation calls\<close>




lemma sourceFetchError_terminal: "\<not> isRetryable sourceFetchError"
  by (simp add: isRetryable_def Error_def sourceFetchError_def)



lemma prepare_data_uri:
  "prepareImageForAPI e ''data:image/jpeg;base64,ABC123'' w = (Inr (Some ''ABC123''), w)"
  by (simp add: prepareImageForAPI_def js_index_def)








lemma image_response_parts:
  "response_parts (image_response payload) =
     [\<lparr>text_of = Some ''Here is your image'', inlineData = None\<rparr>,
      \<lparr>text_of = None, inlineData = Some (InlineData (Some payload))\<rparr>]"
  by (simp add: response_parts_def image_response_def)



lemma flaky_attempts:
  "variant_operation (flaky_env (image_response ''QUJD'')) ''data:image/jpeg;base64,ABC123''
     ''on a beach'' ''low angle'' 0 = (Inl \<lparr>status = Some 503, message = None\<rparr>, 1)"
  "variant_operation (flaky_env (image_response ''QUJD'')) ''data:image/jpeg;base64,ABC123''
     ''on a beach'' ''low angle'' 1 = (Inl \<lparr>status = Some 503, message = None\<rparr>, 2)"
  "variant_operation (flaky_env (image_response ''QUJD'')) ''data:image/jpeg;base64,ABC123''
     ''on a beach'' ''low angle'' 2 =
     (Inr \<lparr>imageUrl = ''data:image/png;base64,QUJD''\<rparr>, 3)"
  by (simp_all add: variant_operation_def flaky_env_def image_response_parts prepare_data_uri
      template_value_def)

theorem withRetry_linear_delay_witness:
  "generateVariantImage (flaky_env (image_response ''QUJD'')) ''data:image/jpeg;base64,ABC123''
     ''on a beach'' ''low angle'' 0 =
     (Inr \<lparr>imageUrl = ''data:image/png;base64,QUJD''\<rparr>,
      [(0, Some 1000), (1, Some 2000), (2, None)], 3)"
proof -
  have r: "isRetryable \<lparr>status = Some 503, message = None\<rparr>"
    by (simp add: isRetryable_def)
  show ?thesis
    unfolding generateVariantImage_def
    using withRetry_linear_delay [where retries = 3 and delay = 1000 and w = 0 and ?w1.0 = 1
        and ?w2.0 = 2 and ?w3.0 = 3
        and ?e1.0 = "\<lparr>status = Some 503, message = None\<rparr>"
        and ?e2.0 = "\<lparr>status = Some 503, message = None\<rparr>"
        and v = "\<lparr>imageUrl = ''data:image/png;base64,QUJD''\<rparr>"
        and operation = "variant_operation (flaky_env (image_response ''QUJD''))
          ''data:image/jpeg;base64,ABC123'' ''on a beach'' ''low angle''",
        THEN conjunct2, THEN conjunct1]
      flaky_attempts r
    by simp
qed


text \<open>
  C8. For an input that starts with \<^verbatim>\<open>http\<close>, when the client is built and the
  fetch fails (the fetch rejects, the response is not ok, or reading its body rejects),
  both generation calls throw the source-fetch error after exactly one attempt: the
  error carries no status and its message holds no transient marker, so the retry
  wrapper treats it as terminal.
\<close>

theorem source_fetch_failure:
  "js_startsWith base64Image ''http'' \<and> newClient e w = (Inr ai, w0) \<and>
   fetch e base64Image w0 = (fo, w1) \<and>
   ((\<exists>err. fo = FetchRejected err) \<or> (\<exists>statusText. fo = ResponseNotOk statusText) \<or>
    (\<exists>err. fo = BlobRejected err)) \<longrightarrow>
     generateMarketingImage e base64Image userPrompt config w =
       (Inl (Thrown sourceFetchError), [(0, None)], w1) \<and>
     generateVariantImage e base64Image setting angle w =
       (Inl (Thrown sourceFetchError), [(0, None)], w1) \<and>
     \<not> isRetryable sourceFetchError \<and>
     status sourceFetchError = None \<and>
     message sourceFetchError =
       Some ''Could not process source image. If using a demo image, ensure CORS is allowed.''"
proof (intro impI)
  assume a: "js_startsWith base64Image ''http'' \<and> newClient e w = (Inr ai, w0) \<and>
   fetch e base64Image w0 = (fo, w1) \<and>
   ((\<exists>err. fo = FetchRejected err) \<or> (\<exists>statusText. fo = ResponseNotOk statusText) \<or>
    (\<exists>err. fo = BlobRejected err))"
  then have p: "prepareImageForAPI e base64Image w0 = (Inl sourceFetchError, w1)"
    by (auto simp add: prepareImageForAPI_def)
  have m: "marketing_operation e base64Image userPrompt config w = (Inl sourceFetchError, w1)"
    using a p by (simp add: marketing_operation_def)
  have v: "variant_operation e base64Image setting angle w = (Inl sourceFetchError, w1)"
    using a p by (simp add: variant_operation_def)
  have t: "\<not> isRetryable sourceFetchError"
    by (simp add: isRetryable_def Error_def sourceFetchError_def)
  show "generateMarketingImage e base64Image userPrompt config w =
       (Inl (Thrown sourceFetchError), [(0, None)], w1) \<and>
     generateVariantImage e base64Image setting angle w =
       (Inl (Thrown sourceFetchError), [(0, None)], w1) \<and>
     \<not> isRetryable sourceFetchError \<and>
     status sourceFetchError = None \<and>
     message sourceFetchError =
       Some ''Could not process source image. If using a demo image, ensure CORS is allowed.''"
    unfolding generateMarketingImage_def generateVariantImage_def
    using withRetry_loop_single [of "marketing_operation e base64Image userPrompt config" w
        "Inl sourceFetchError" w1 1000]
      withRetry_loop_single [of "variant_operation e base64Image setting angle" w
        "Inl sourceFetchError" w1 1000] m v t
    by (simp add: sourceFetchError_def Error_def)
qed

theorem source_fetch_failure_witness:
  "generateMarketingImage (stub_env (FetchRejected (Error ''Failed to fetch'')) (Inr text_response))
     ''https://images.unsplash.com/photo-1'' ''beach sunset'' scenario_config 0 =
     (Inl (Thrown sourceFetchError), [(0, None)], 1) \<and>
   generateVariantImage (stub_env (FetchRejected (Error ''Failed to fetch'')) (Inr text_response))
     ''https://images.unsplash.com/photo-1'' ''on a beach'' ''low angle'' 0 =
     (Inl (Thrown sourceFetchError), [(0, None)], 1) \<and>
   \<not> isRetryable sourceFetchError"
  using source_fetch_failure [of "''https://images.unsplash.com/photo-1''"
      "stub_env (FetchRejected (Error ''Failed to fetch'')) (Inr text_response)" 0 "()" 0
      "FetchRejected (Error ''Failed to fetch'')" 1 "''beach sunset''" scenario_config
      "''on a beach''" "''low angle''"]
  by (simp add: stub_fields)

section \<open>The prompt composer\<close>

lemma includes_decomp: "s = pre @ sub @ post \<Longrightarrow> js_includes s sub"
  by (simp add: js_includes_mid)

lemma js_startsWith_chars: "js_startsWith s p \<Longrightarrow> set p \<subseteq> set s"
  by (induction s p rule: js_startsWith.induct) auto

lemma js_includes_chars: "js_includes s sub \<Longrightarrow> set sub \<subseteq> set s"
proof (induction s)
  case Nil
  then show ?case by simp
next
  case (Cons c cs)
  then show ?case using js_startsWith_chars [of "c # cs" sub] by auto
qed

lemma absent_char_not_included:
  "list_all (\<lambda>x. x \<noteq> c) s \<Longrightarrow> c \<in> set sub \<Longrightarrow> \<not> js_includes s sub"
  using js_includes_chars [of s sub] by (auto simp add: list_all_iff)




lemmas composer_defs = marketing_prompt_def productPreservationPrompt_def posePrompt_def
  facePrompt_def locationPrompt_def stylePrompt_def
lemmas composer_svc_defs = marketing_prompt_svc_def productPreservationPrompt_svc_def
  posePrompt_svc_def facePrompt_svc_def locationPrompt_def stylePrompt_def

lemma scenario_product:
  "js_includes (marketing_prompt ''beach sunset'' scenario_config)
     ''\<newline>        CRITICAL - PRODUCT PRESERVATION:\<newline>        The object held in the hand is a real commercial product. \<newline>        You MUST preserve the PRODUCT TEXT, LOGOS, and LABEL DETAILS exactly as they appear in the reference image.\<newline>        Do not hallucinate new text on the label. Do not blur or distort the brand name.\<newline>        Treat the product pixels as ground truth.\<newline>        ''"
  by (rule includes_decomp [where pre = "''\<newline>        Professional Product Photography. \<newline>        Task: Transform this reference image into a high-end commercial advertisement.\<newline>        \<newline>        ''"
        and post = "''\<newline>  \<newline>        Product Integrity: The object being held (the product) MUST remain exactly as it appears. Ensure the hand grip is natural. STRICTLY mimic the exact arm angle, hand grip, and body posture of the reference image. Do not move the arm.\<newline>        Subject: Keep the user's face and identity recognizable, but enhance lighting and skin texture for a professional look.\<newline>        Context/Background: beach sunset. \<newline>        Style: Commercial, High Key, 8k Resolution, Sharp Focus.\<newline>      ''"])
    (simp add: composer_defs scenario_config_def)

lemma scenario_pose:
  "js_includes (marketing_prompt ''beach sunset'' scenario_config)
     '' STRICTLY mimic the exact arm angle, hand grip, and body posture of the reference image. Do not move the arm.''"
  by (rule includes_decomp [where pre = "''\<newline>        Professional Product Photography. \<newline>        Task: Transform this reference image into a high-end commercial advertisement.\<newline>        \<newline>        \<newline>        CRITICAL - PRODUCT PRESERVATION:\<newline>        The object held in the hand is a real commercial product. \<newline>        You MUST preserve the PRODUCT TEXT, LOGOS, and LABEL DETAILS exactly as they appear in the reference image.\<newline>        Do not hallucinate new text on the label. Do not blur or distort the brand name.\<newline>        Treat the product pixels as ground truth.\<newline>        \<newline>  \<newline>        Product Integrity: The object being held (the product) MUST remain exactly as it appears. Ensure the hand grip is natural.''"
        and post = "''\<newline>        Subject: Keep the user's face and identity recognizable, but enhance lighting and skin texture for a professional look.\<newline>        Context/Background: beach sunset. \<newline>        Style: Commercial, High Key, 8k Resolution, Sharp Focus.\<newline>      ''"])
    (simp add: composer_defs scenario_config_def)

lemma scenario_face:
  "js_includes (marketing_prompt ''beach sunset'' scenario_config)
     ''Keep the user's face and identity recognizable, but enhance lighting and skin texture for a professional look.''"
  by (rule includes_decomp [where pre = "''\<newline>        Professional Product Photography. \<newline>        Task: Transform this reference image into a high-end commercial advertisement.\<newline>        \<newline>        \<newline>        CRITICAL - PRODUCT PRESERVATION:\<newline>        The object held in the hand is a real commercial product. \<newline>        You MUST preserve the PRODUCT TEXT, LOGOS, and LABEL DETAILS exactly as they appear in the reference image.\<newline>        Do not hallucinate new text on the label. Do not blur or distort the brand name.\<newline>        Treat the product pixels as ground truth.\<newline>        \<newline>  \<newline>        Product Integrity: The object being held (the product) MUST remain exactly as it appears. Ensure the hand grip is natural. STRICTLY mimic the exact arm angle, hand grip, and body posture of the reference image. Do not move the arm.\<newline>        Subject: ''"
        and post = "''\<newline>        Context/Background: beach sunset. \<newline>        Style: Commercial, High Key, 8k Resolution, Sharp Focus.\<newline>      ''"])
    (simp add: composer_defs scenario_config_def)

lemma scenario_context:
  "js_includes (marketing_prompt ''beach sunset'' scenario_config)
     ''beach sunset''"
  by (rule includes_decomp [where pre = "''\<newline>        Professional Product Photography. \<newline>        Task: Transform this reference image into a high-end commercial advertisement.\<newline>        \<newline>        \<newline>        CRITICAL - PRODUCT PRESERVATION:\<newline>        The object held in the hand is a real commercial product. \<newline>        You MUST preserve the PRODUCT TEXT, LOGOS, and LABEL DETAILS exactly as they appear in the reference image.\<newline>        Do not hallucinate new text on the label. Do not blur or distort the brand name.\<newline>        Treat the product pixels as ground truth.\<newline>        \<newline>  \<newline>        Product Integrity: The object being held (the product) MUST remain exactly as it appears. Ensure the hand grip is natural. STRICTLY mimic the exact arm angle, hand grip, and body posture of the reference image. Do not move the arm.\<newline>        Subject: Keep the user's face and identity recognizable, but enhance lighting and skin texture for a professional look.\<newline>        Context/Background: ''"
        and post = "''. \<newline>        Style: Commercial, High Key, 8k Resolution, Sharp Focus.\<newline>      ''"])
    (simp add: composer_defs scenario_config_def)

lemma scenario_style:
  "js_includes (marketing_prompt ''beach sunset'' scenario_config)
     ''Commercial, High Key, 8k Resolution, Sharp Focus.''"
  by (rule includes_decomp [where pre = "''\<newline>        Professional Product Photography. \<newline>        Task: Transform this reference image into a high-end commercial advertisement.\<newline>        \<newline>        \<newline>        CRITICAL - PRODUCT PRESERVATION:\<newline>        The object held in the hand is a real commercial product. \<newline>        You MUST preserve the PRODUCT TEXT, LOGOS, and LABEL DETAILS exactly as they appear in the reference image.\<newline>        Do not hallucinate new text on the label. Do not blur or distort the brand name.\<newline>        Treat the product pixels as ground truth.\<newline>        \<newline>  \<newline>        Product Integrity: The object being held (the product) MUST remain exactly as it appears. Ensure the hand grip is natural. STRICTLY mimic the exact arm angle, hand grip, and body posture of the reference image. Do not move the arm.\<newline>        Subject: Keep the user's face and identity recognizable, but enhance lighting and skin texture for a professional look.\<newline>        Context/Background: beach sunset. \<newline>        Style: ''"
        and post = "''\<newline>      ''"])
    (simp add: composer_defs scenario_config_def)

lemma scenario_no_W:
  "list_all (\<lambda>c. c \<noteq> CHR ''W'') (marketing_prompt ''beach sunset'' scenario_config)"
  by (simp add: composer_defs scenario_config_def)

lemma scenario_product_svc:
  "js_includes (marketing_prompt_svc ''beach sunset'' scenario_config)
     ''\<newline>      CRITICAL - PRODUCT PRESERVATION:\<newline>      The object held in the hand is a real commercial product. \<newline>      You MUST preserve the PRODUCT TEXT, LOGOS, and LABEL DETAILS exactly as they appear in the reference image.\<newline>      Do not hallucinate new text on the label. Do not blur or distort the brand name.\<newline>      Treat the product pixels as ground truth.\<newline>      ''"
  by (rule includes_decomp [where pre = "''\<newline>      Professional Product Photography. \<newline>      Task: Transform this reference image into a high-end commercial advertisement.\<newline>      \<newline>      ''"
        and post = "''\<newline>\<newline>      Product Integrity: The object being held (the product) MUST remain exactly as it appears. Ensure the hand grip is natural. STRICTLY mimic the exact arm angle, hand grip, and body posture of the reference image.\<newline>      Subject: Keep the user's face and identity recognizable, but enhance lighting and skin texture for a professional look.\<newline>      Context/Background: beach sunset. \<newline>      Style: Commercial, High Key, 8k Resolution, Sharp Focus.\<newline>    ''"])
    (simp add: composer_svc_defs scenario_config_def)

lemma scenario_pose_svc:
  "js_includes (marketing_prompt_svc ''beach sunset'' scenario_config)
     '' STRICTLY mimic the exact arm angle, hand grip, and body posture of the reference image.''"
  by (rule includes_decomp [where pre = "''\<newline>      Professional Product Photography. \<newline>      Task: Transform this reference image into a high-end commercial advertisement.\<newline>      \<newline>      \<newline>      CRITICAL - PRODUCT PRESERVATION:\<newline>      The object held in the hand is a real commercial product. \<newline>      You MUST preserve the PRODUCT TEXT, LOGOS, and LABEL DETAILS exactly as they appear in the reference image.\<newline>      Do not hallucinate new text on the label. Do not blur or distort the brand name.\<newline>      Treat the product pixels as ground truth.\<newline>      \<newline>\<newline>      Product Integrity: The object being held (the product) MUST remain exactly as it appears. Ensure the hand grip is natural.''"
        and post = "''\<newline>      Subject: Keep the user's face and identity recognizable, but enhance lighting and skin texture for a professional look.\<newline>      Context/Background: beach sunset. \<newline>      Style: Commercial, High Key, 8k Resolution, Sharp Focus.\<newline>    ''"])
    (simp add: composer_svc_defs scenario_config_def)

lemma scenario_face_svc:
  "js_includes (marketing_prompt_svc ''beach sunset'' scenario_config)
     ''Keep the user's face and identity recognizable, but enhance lighting and skin texture for a professional look.''"
  by (rule includes_decomp [where pre = "''\<newline>      Professional Product Photography. \<newline>      Task: Transform this reference image into a high-end commercial advertisement.\<newline>      \<newline>      \<newline>      CRITICAL - PRODUCT PRESERVATION:\<newline>      The object held in the hand is a real commercial product. \<newline>      You MUST preserve the PRODUCT TEXT, LOGOS, and LABEL DETAILS exactly as they appear in the reference image.\<newline>      Do not hallucinate new text on the label. Do not blur or distort the brand name.\<newline>      Treat the product pixels as ground truth.\<newline>      \<newline>\<newline>      Product Integrity: The object being held (the product) MUST remain exactly as it appears. Ensure the hand grip is natural. STRICTLY mimic the exact arm angle, hand grip, and body posture of the reference image.\<newline>      Subject: ''"
        and post = "''\<newline>      Context/Background: beach sunset. \<newline>      Style: Commercial, High Key, 8k Resolution, Sharp Focus.\<newline>    ''"])
    (simp add: composer_svc_defs scenario_config_def)

lemma scenario_context_svc:
  "js_includes (marketing_prompt_svc ''beach sunset'' scenario_config)
     ''beach sunset''"
  by (rule includes_decomp [where pre = "''\<newline>      Professional Product Photography. \<newline>      Task: Transform this reference image into a high-end commercial advertisement.\<newline>      \<newline>      \<newline>      CRITICAL - PRODUCT PRESERVATION:\<newline>      The object held in the hand is a real commercial product. \<newline>      You MUST preserve the PRODUCT TEXT, LOGOS, and LABEL DETAILS exactly as they appear in the reference image.\<newline>      Do not hallucinate new text on the label. Do not blur or distort the brand name.\<newline>      Treat the product pixels as ground truth.\<newline>      \<newline>\<newline>      Product Integrity: The object being held (the product) MUST remain exactly as it appears. Ensure the hand grip is natural. STRICTLY mimic the exact arm angle, hand grip, and body posture of the reference image.\<newline>      Subject: Keep the user's face and identity recognizable, but enhance lighting and skin texture for a professional look.\<newline>      Context/Background: ''"
        and post = "''. \<newline>      Style: Commercial, High Key, 8k Resolution, Sharp Focus.\<newline>    ''"])
    (simp add: composer_svc_defs scenario_config_def)

lemma scenario_style_svc:
  "js_includes (marketing_prompt_svc ''beach sunset'' scenario_config)
     ''Commercial, High Key, 8k Resolution, Sharp Focus.''"
  by (rule includes_decomp [where pre = "''\<newline>      Professional Product Photography. \<newline>      Task: Transform this reference image into a high-end commercial advertisement.\<newline>      \<newline>      \<newline>      CRITICAL - PRODUCT PRESERVATION:\<newline>      The object held in the hand is a real commercial product. \<newline>      You MUST preserve the PRODUCT TEXT, LOGOS, and LABEL DETAILS exactly as they appear in the reference image.\<newline>      Do not hallucinate new text on the label. Do not blur or distort the brand name.\<newline>      Treat the product pixels as ground truth.\<newline>      \<newline>\<newline>      Product Integrity: The object being held (the product) MUST remain exactly as it appears. Ensure the hand grip is natural. STRICTLY mimic the exact arm angle, hand grip, and body posture of the reference image.\<newline>      Subject: Keep the user's face and identity recognizable, but enhance lighting and skin texture for a professional look.\<newline>      Context/Background: beach sunset. \<newline>      Style: ''"
        and post = "''\<newline>    ''"])
    (simp add: composer_svc_defs scenario_config_def)

lemma scenario_no_W_svc:
  "list_all (\<lambda>c. c \<noteq> CHR ''W'') (marketing_prompt_svc ''beach sunset'' scenario_config)"
  by (simp add: composer_svc_defs scenario_config_def)


text \<open>
  C5. For the configuration with product, pose and face locked, colour and free location,
  and the context \<^verbatim>\<open>beach sunset\<close>, each composer's instruction contains its strict
  product-preservation block, its strict-pose clause, the identity-retention clause,
  the context itself and the default commercial style clause, and does not contain the
  monochrome style clause.
\<close>

theorem scenario_prompt:
  "js_includes (marketing_prompt ''beach sunset'' scenario_config)
     ''\<newline>        CRITICAL - PRODUCT PRESERVATION:\<newline>        The object held in the hand is a real commercial product. \<newline>        You MUST preserve the PRODUCT TEXT, LOGOS, and LABEL DETAILS exactly as they appear in the reference image.\<newline>        Do not hallucinate new text on the label. Do not blur or distort the brand name.\<newline>        Treat the product pixels as ground truth.\<newline>        '' \<and>
   js_includes (marketing_prompt ''beach sunset'' scenario_config)
     '' STRICTLY mimic the exact arm angle, hand grip, and body posture of the reference image. Do not move the arm.'' \<and>
   js_includes (marketing_prompt ''beach sunset'' scenario_config)
     ''Keep the user's face and identity recognizable, but enhance lighting and skin texture for a professional look.'' \<and>
   js_includes (marketing_prompt ''beach sunset'' scenario_config) ''beach sunset'' \<and>
   \<not> js_includes (marketing_prompt ''beach sunset'' scenario_config)
     ''Black and White Photography, High Contrast, Noir Style, Ansel Adams aesthetic.'' \<and>
   js_includes (marketing_prompt ''beach sunset'' scenario_config)
     ''Commercial, High Key, 8k Resolution, Sharp Focus.'' \<and>
   js_includes (marketing_prompt_svc ''beach sunset'' scenario_config)
     ''\<newline>      CRITICAL - PRODUCT PRESERVATION:\<newline>      The object held in the hand is a real commercial product. \<newline>      You MUST preserve the PRODUCT TEXT, LOGOS, and LABEL DETAILS exactly as they appear in the reference image.\<newline>      Do not hallucinate new text on the label. Do not blur or distort the brand name.\<newline>      Treat the product pixels as ground truth.\<newline>      '' \<and>
   js_includes (marketing_prompt_svc ''beach sunset'' scenario_config)
     '' STRICTLY mimic the exact arm angle, hand grip, and body posture of the reference image.'' \<and>
   js_includes (marketing_prompt_svc ''beach sunset'' scenario_config)
     ''Keep the user's face and identity recognizable, but enhance lighting and skin texture for a professional look.'' \<and>
   js_includes (marketing_prompt_svc ''beach sunset'' scenario_config) ''beach sunset'' \<and>
   \<not> js_includes (marketing_prompt_svc ''beach sunset'' scenario_config)
     ''Black and White Photography, High Contrast, Noir Style, Ansel Adams aesthetic.'' \<and>
   js_includes (marketing_prompt_svc ''beach sunset'' scenario_config)
     ''Commercial, High Key, 8k Resolution, Sharp Focus.''"
proof -
  have w: "CHR ''W'' \<in> set ''Black and White Photography, High Contrast, Noir Style, Ansel Adams aesthetic.''"
    by simp
  show ?thesis
    using scenario_product scenario_pose scenario_face scenario_context scenario_style
      scenario_product_svc scenario_pose_svc scenario_face_svc scenario_context_svc
      scenario_style_svc
      absent_char_not_included [OF scenario_no_W w]
      absent_char_not_included [OF scenario_no_W_svc w]
    by blast
qed






section \<open>The A/B fan-out\<close>

lemma otherSettings_nonempty:
  "filter (\<lambda>c. choice_id c \<noteq> x) SETTINGS \<noteq> []"
proof
  assume "filter (\<lambda>c. choice_id c \<noteq> x) SETTINGS = []"
  then have "\<forall>c \<in> set SETTINGS. choice_id c = x"
    by (simp add: filter_empty_conv)
  then have "''marble'' = x \<and> ''neon'' = x"
    by (simp add: SETTINGS_def)
  then show False by auto
qed

lemma random_index_in_range:
  assumes "0 \<le> r" and "r < 1" and "0 < n"
  shows "0 \<le> \<lfloor>r * real n\<rfloor> \<and> \<lfloor>r * real n\<rfloor> < int n"
proof
  show "0 \<le> \<lfloor>r * real n\<rfloor>" using assms by simp
  have "r * real n < real n" using assms by simp
  then show "\<lfloor>r * real n\<rfloor> < int n" by (simp add: floor_less_iff)
qed

lemma allSettled_pair:
  assumes "0 \<in> set completionOrder" and "1 \<in> set completionOrder"
  shows "allSettled 2 (map (\<lambda>p. (p, [a, b] ! p)) (filter (\<lambda>p. p < 2) completionOrder)) =
     Some [a, b]"
proof -
  have m: "map_of (map (\<lambda>p. (p, [a, b] ! p)) (filter (\<lambda>p. p < 2) completionOrder)) k =
      (if k \<in> set (filter (\<lambda>p. p < 2) completionOrder) then Some ([a, b] ! k) else None)" for k
    by (simp add: map_of_map_restrict restrict_map_def)
  have u: "[0..<2] = [0, Suc 0]" by (simp add: upt_rec)
  show ?thesis
    unfolding allSettled_def u using assms by (simp add: m)
qed

lemma abTest_try_settled:
  assumes "0 \<le> rnd 0" and "rnd 0 < 1"
    and "0 \<in> set completionOrder" and "1 \<in> set completionOrder"
    and os: "otherSettings = filter (\<lambda>c. choice_id c \<noteq> choice_id sel) SETTINGS"
    and vb: "variantB = otherSettings ! nat \<lfloor>rnd 0 * real (length otherSettings)\<rfloor>"
    and ca: "callA = settle 0 img (prompt sel) (prompt ang)"
    and cb: "callB = settle 1 img (prompt variantB) (prompt ang)"
  shows "abTest_try settle rnd completionOrder img sel ang =
     (let resultA =
            (case callA of
               Fulfilled v \<Rightarrow>
                 [\<lparr>result_id = ''A'', result_image = imageUrl v, settingName = label sel,
                    result_stats = \<lparr>ctr = random_ctr (rnd 2), score = random_score (rnd 1),
                      impressions = 1240\<rparr>\<rparr>]
             | Rejected reason \<Rightarrow> []);
          n = 1 + 2 * length resultA;
          resultB =
            (case callB of
               Fulfilled v \<Rightarrow>
                 [\<lparr>result_id = ''B'', result_image = imageUrl v, settingName = label variantB,
                    result_stats = \<lparr>ctr = random_ctr (rnd (Suc n)), score = random_score (rnd n),
                      impressions = 1180\<rparr>\<rparr>]
             | Rejected reason \<Rightarrow> []);
          validResults = resultA @ resultB
      in if length validResults = 0 then Some (Inl BothVariantsFailed)
         else Some (Inr validResults))"
proof -
  have ne: "0 < length otherSettings"
    using otherSettings_nonempty [of "choice_id sel"] os by simp
  have k: "(\<lfloor>rnd 0 * real (length otherSettings)\<rfloor> < 0 \<or>
      int (length otherSettings) \<le> \<lfloor>rnd 0 * real (length otherSettings)\<rfloor>) = False"
    using random_index_in_range [OF assms(1,2) ne] by auto
  have st: "allSettled 2 (map (\<lambda>p. (p, [callA, callB] ! p))
      (filter (\<lambda>p. p < 2) completionOrder)) = Some [callA, callB]"
    using assms(3,4) by (rule allSettled_pair)
  have n0: "[callA, callB] ! 0 = callA" and n1: "[callA, callB] ! 1 = callB"
    by simp_all
  show ?thesis
    unfolding abTest_try_def Let_def os [symmetric] vb [symmetric] ca [symmetric] cb [symmetric]
    by (simp only: k if_False st option.case n0 n1)
qed

text \<open>
  C9. Both calls settle, in any order of completion, and \<^verbatim>\<open>Math.random()\<close> draws from
  \<open>[0, 1)\<close>. When the call at position 0 is fulfilled and the one at position 1 is
  rejected, the block yields exactly one result, tagged \<^verbatim>\<open>A\<close>, and the handler stores
  it without raising an alert; when position 0 is rejected and position 1 fulfilled,
  the one result is tagged \<^verbatim>\<open>B\<close>. The block throws only when both calls are rejected.
\<close>

theorem ab_partial_failure:
  assumes "0 \<le> rnd 0" and "rnd 0 < 1"
    and "originalImage s = Some img" and "img \<noteq> []" and "\<not> isRunningAB s"
    and "0 \<in> set completionOrder" and "1 \<in> set completionOrder"
    and "otherSettings = filter (\<lambda>c. choice_id c \<noteq> choice_id (selectedSetting s)) SETTINGS"
    and "variantB = otherSettings ! nat \<lfloor>rnd 0 * real (length otherSettings)\<rfloor>"
    and "callA = settle 0 img (prompt (selectedSetting s)) (prompt (selectedAngle s))"
    and "callB = settle 1 img (prompt variantB) (prompt (selectedAngle s))"
    and "resultA = \<lparr>result_id = ''A'', result_image = imageA,
           settingName = label (selectedSetting s),
           result_stats = \<lparr>ctr = random_ctr (rnd 2), score = random_score (rnd 1),
             impressions = 1240\<rparr>\<rparr>"
    and "resultB = \<lparr>result_id = ''B'', result_image = imageB,
           settingName = label variantB,
           result_stats = \<lparr>ctr = random_ctr (rnd 2), score = random_score (rnd 1),
             impressions = 1180\<rparr>\<rparr>"
  shows
    "(callA = Fulfilled \<lparr>imageUrl = imageA\<rparr> \<and> callB = Rejected reason \<longrightarrow>
        abTest_try settle rnd completionOrder img (selectedSetting s) (selectedAngle s) =
          Some (Inr [resultA]) \<and>
        handleRunABTest settle rnd completionOrder s =
          s\<lparr>isRunningAB := False, abResults := [resultA]\<rparr>) \<and>
     (callA = Rejected reason \<and> callB = Fulfilled \<lparr>imageUrl = imageB\<rparr> \<longrightarrow>
        abTest_try settle rnd completionOrder img (selectedSetting s) (selectedAngle s) =
          Some (Inr [resultB]) \<and>
        handleRunABTest settle rnd completionOrder s =
          s\<lparr>isRunningAB := False, abResults := [resultB]\<rparr>) \<and>
     (abTest_try settle rnd completionOrder img (selectedSetting s) (selectedAngle s) =
        Some (Inl err) \<longrightarrow>
        err = BothVariantsFailed \<and> (\<exists>r1 r2. callA = Rejected r1 \<and> callB = Rejected r2))"
proof -
  note t = abTest_try_settled [where settle = settle and rnd = rnd and img = img
      and completionOrder = completionOrder and otherSettings = otherSettings
      and sel = "selectedSetting s" and ang = "selectedAngle s" and variantB = variantB
      and callA = callA and callB = callB, OF assms(1,2,6,7,8,9,10,11)]
  have a: "callA = Fulfilled \<lparr>imageUrl = imageA\<rparr> \<and> callB = Rejected reason \<longrightarrow>
        abTest_try settle rnd completionOrder img (selectedSetting s) (selectedAngle s) =
          Some (Inr [resultA])"
    unfolding t by (simp add: assms(12))
  have b: "callA = Rejected reason \<and> callB = Fulfilled \<lparr>imageUrl = imageB\<rparr> \<longrightarrow>
        abTest_try settle rnd completionOrder img (selectedSetting s) (selectedAngle s) =
          Some (Inr [resultB])"
    unfolding t by (simp add: assms(13) numeral_2_eq_2)
  have c: "abTest_try settle rnd completionOrder img (selectedSetting s) (selectedAngle s) =
        Some (Inl err) \<longrightarrow>
        err = BothVariantsFailed \<and> (\<exists>r1 r2. callA = Rejected r1 \<and> callB = Rejected r2)"
    unfolding t by (cases callA; cases callB) (simp_all add: Let_def)
  have h: "abTest_try settle rnd completionOrder img (selectedSetting s) (selectedAngle s) =
      Some (Inr rs) \<Longrightarrow>
      handleRunABTest settle rnd completionOrder s = s\<lparr>isRunningAB := False, abResults := rs\<rparr>"
    for rs
    using assms(3-5) by (simp add: handleRunABTest_def)
  show ?thesis using a b c h by blast
qed

lemma other_settings_marble:
  "tl SETTINGS = filter (\<lambda>c. choice_id c \<noteq> choice_id (selectedSetting studio0)) SETTINGS"
  by (simp add: SETTINGS_def studio0_def)

lemma challenger_minimal:
  "SETTINGS ! 3 = tl SETTINGS ! nat \<lfloor>(1 / 2 :: real) * real (length (tl SETTINGS))\<rfloor>"
  by (simp add: SETTINGS_def)

lemma half_stats: "random_ctr (1 / 2) = 3" "random_score (1 / 2) = 82"
  by (simp_all add: random_ctr_def random_score_def)

theorem ab_partial_failure_witness:
  "handleRunABTest settle_A_fails (\<lambda>i. 1 / 2) [1, 0] studio0 =
     studio0\<lparr>isRunningAB := False,
       abResults :=
         [\<lparr>result_id = ''B'', result_image = ''data:image/png;base64,QUJD'',
            settingName = ''Ultra Minimal'',
            result_stats = \<lparr>ctr = 3, score = 82, impressions = 1180\<rparr>\<rparr>]\<rparr>"
proof -
  have r: "(0 :: real) \<le> 1 / 2" "(1 / 2 :: real) < 1"
    by simp_all
  have s: "originalImage studio0 = Some ''data:image/jpeg;base64,ABC123''"
    "''data:image/jpeg;base64,ABC123'' \<noteq> []" "\<not> isRunningAB studio0"
    by (simp_all add: studio0_def)
  have c: "(0 :: nat) \<in> set [1, 0]" "(1 :: nat) \<in> set [1, 0]"
    by simp_all
  have a: "Rejected (Thrown (Error ''No image generated from Flash model'')) =
      settle_A_fails 0 ''data:image/jpeg;base64,ABC123'' (prompt (selectedSetting studio0))
        (prompt (selectedAngle studio0))"
    by (simp add: settle_A_fails_def)
  have b: "Fulfilled \<lparr>imageUrl = ''data:image/png;base64,QUJD''\<rparr> =
      settle_A_fails 1 ''data:image/jpeg;base64,ABC123'' (prompt (SETTINGS ! 3))
        (prompt (selectedAngle studio0))"
    by (simp add: settle_A_fails_def)
  note th = ab_partial_failure [where rnd = "\<lambda>i. 1 / 2" and s = studio0
      and img = "''data:image/jpeg;base64,ABC123''" and completionOrder = "[1, 0]"
      and otherSettings = "tl SETTINGS" and variantB = "SETTINGS ! 3"
      and settle = settle_A_fails
      and callA = "Rejected (Thrown (Error ''No image generated from Flash model''))"
      and callB = "Fulfilled \<lparr>imageUrl = ''data:image/png;base64,QUJD''\<rparr>"
      and imageA = "[]" and imageB = "''data:image/png;base64,QUJD''"
      and reason = "Thrown (Error ''No image generated from Flash model'')",
      OF r s c other_settings_marble challenger_minimal a b refl refl]
  have l: "label (SETTINGS ! 3) = ''Ultra Minimal''"
    by (simp add: SETTINGS_def)
  show ?thesis
    using th [THEN conjunct2, THEN conjunct1] by (simp add: l half_stats)
qed

end
